theory Spec2Isabelle
  imports Complex_Main
begin

section \<open>Numbers, errors and strings\<close>

text \<open>
  The tax engine of the repository is \<^verbatim>\<open>tax_logic.py\<close> (tables, \<^verbatim>\<open>calculate_tax\<close>,
  \<^verbatim>\<open>compute_liability\<close>) and the field normaliser \<^verbatim>\<open>to_float\<close> of \<^verbatim>\<open>app.py\<close>.

  Amounts are modelled as exact rationals: the decimals of the specification. Python
  evaluates the same expressions on binary floating-point numbers; the representation
  error of that arithmetic is outside this model. Every concrete input used below for
  an evaluation is a dyadic rational (exactly representable as a float) whose result is
  far from a rounding tie, or an exact tie, so that the float run of the source gives the
  value shown.
\<close>

datatype py_error = KeyError | TypeError | ValueError | OverflowError

text \<open>
  Python's \<^verbatim>\<open>round(x, n)\<close> rounds to the nearest multiple of \<open>10\<^sup>-\<^sup>n\<close>; an exact tie goes
  to the even neighbour.
\<close>

definition round_half_even :: "rat \<Rightarrow> int" where
  "round_half_even x =
     (let f = \<lfloor>x\<rfloor>; d = x - of_int f
      in if d < 1 / 2 then f
         else if 1 / 2 < d then f + 1
         else if even f then f else f + 1)"

definition py_round :: "rat \<Rightarrow> nat \<Rightarrow> rat" where
  "py_round x n = of_int (round_half_even (x * 10 ^ n)) / 10 ^ n"

text \<open>
  \<^verbatim>\<open>str.lower()\<close> on the ASCII letters, and \<^verbatim>\<open>str.replace(old, new)\<close> for single
  characters. A string is a list of bytes here. Python also lower-cases letters beyond
  ASCII; the only one whose lower case is an ASCII letter is the Kelvin sign, which
  becomes \<^verbatim>\<open>k\<close>, a letter that no key of the tables contains, so a string with a
  character beyond ASCII is no key after normalisation in Python and in this model alike.
\<close>

definition ascii_uppercase :: string where
  "ascii_uppercase = ''ABCDEFGHIJKLMNOPQRSTUVWXYZ''"

definition ascii_lowercase :: string where
  "ascii_lowercase = ''abcdefghijklmnopqrstuvwxyz''"

definition lower_char :: "char \<Rightarrow> char" where
  "lower_char c =
     (case map_of (zip ascii_uppercase ascii_lowercase) c of
        Some l \<Rightarrow> l
      | None \<Rightarrow> c)"

definition lower :: "string \<Rightarrow> string" where
  "lower s = map lower_char s"

definition replace :: "char \<Rightarrow> char \<Rightarrow> string \<Rightarrow> string" where
  "replace old new s = map (\<lambda>c. if c = old then new else c) s"

section \<open>The static tables of \<^verbatim>\<open>tax_logic.py\<close>\<close>

text \<open>
  A band is the tuple \<^verbatim>\<open>(low, high, rate)\<close>. The upper bound of the last band is
  \<^verbatim>\<open>float('inf')\<close>, the constructor \<open>Infinity\<close> here.
\<close>

datatype bound = Finite rat | Infinity

type_synonym band = "rat \<times> bound \<times> rat"

definition STANDARD_DEDUCTION :: "(string \<times> rat) list" where
  "STANDARD_DEDUCTION =
     [(''single'', 14600),
      (''married_filing_jointly'', 29200),
      (''married_filing_separately'', 14600),
      (''head_of_household'', 21900)]"

definition TAX_BRACKETS_2024 :: "(string \<times> band list) list" where
  "TAX_BRACKETS_2024 =
     [(''single'',
        [(0, Finite 11000, 10 / 100),
         (11000, Finite 44725, 12 / 100),
         (44725, Finite 95375, 22 / 100),
         (95375, Finite 182100, 24 / 100),
         (182100, Finite 231250, 32 / 100),
         (231250, Finite 578125, 35 / 100),
         (578125, Infinity, 37 / 100)]),
      (''married_filing_jointly'',
        [(0, Finite 22000, 10 / 100),
         (22000, Finite 89450, 12 / 100),
         (89450, Finite 190750, 22 / 100),
         (190750, Finite 364200, 24 / 100),
         (364200, Finite 462500, 32 / 100),
         (462500, Finite 693750, 35 / 100),
         (693750, Infinity, 37 / 100)]),
      (''married_filing_separately'',
        [(0, Finite 11000, 10 / 100),
         (11000, Finite 44725, 12 / 100),
         (44725, Finite 95375, 22 / 100),
         (95375, Finite 182100, 24 / 100),
         (182100, Finite 231250, 32 / 100),
         (231250, Finite 346875, 35 / 100),
         (346875, Infinity, 37 / 100)]),
      (''head_of_household'',
        [(0, Finite 15700, 10 / 100),
         (15700, Finite 59850, 12 / 100),
         (59850, Finite 95350, 22 / 100),
         (95350, Finite 182100, 24 / 100),
         (182100, Finite 231250, 32 / 100),
         (231250, Finite 578100, 35 / 100),
         (578100, Infinity, 37 / 100)])]"

section \<open>\<^verbatim>\<open>calculate_tax\<close>\<close>

text \<open>
  The \<^verbatim>\<open>for\<close> loop over the bands, with the running \<^verbatim>\<open>tax\<close> as accumulator. The
  comparison \<^verbatim>\<open>income > high\<close> is false against \<^verbatim>\<open>float('inf')\<close>; the \<^verbatim>\<open>break\<close> is
  the branch that does not recurse.
\<close>

fun bracket_loop :: "rat \<Rightarrow> band list \<Rightarrow> rat \<Rightarrow> rat" where
  "bracket_loop income [] tax = tax"
| "bracket_loop income ((low, high, rate) # rest) tax =
     (case high of
        Finite h \<Rightarrow>
          if income > h then bracket_loop income rest (tax + (h - low) * rate)
          else tax + (income - low) * rate
      | Infinity \<Rightarrow> tax + (income - low) * rate)"

definition calculate_tax :: "rat \<Rightarrow> string \<Rightarrow> py_error + rat" where
  "calculate_tax income filing_status =
     (let filing_status =
            (if map_of TAX_BRACKETS_2024 filing_status = None then ''single''
             else filing_status)
      in case map_of TAX_BRACKETS_2024 filing_status of
           None \<Rightarrow> Inl KeyError
         | Some brackets \<Rightarrow> Inr (py_round (bracket_loop income brackets 0) 2))"

section \<open>\<^verbatim>\<open>compute_liability\<close>\<close>

text \<open>
  The returned dictionary has six fixed keys: \<^verbatim>\<open>"Total Income"\<close>,
  \<^verbatim>\<open>"Standard Deduction"\<close>, \<^verbatim>\<open>"Taxable Income"\<close>, \<^verbatim>\<open>"Federal Tax Owed"\<close>,
  \<^verbatim>\<open>"Federal Tax Withheld"\<close> and \<^verbatim>\<open>"Refund or Balance Due"\<close>, the fields of this record.
\<close>

record tax_summary =
  Total_Income :: rat
  Standard_Deduction :: rat
  Taxable_Income :: rat
  Federal_Tax_Owed :: rat
  Federal_Tax_Withheld :: rat
  Refund_or_Balance_Due :: rat

text \<open>
  \<^verbatim>\<open>STANDARD_DEDUCTION.get(filing_status, STANDARD_DEDUCTION["single"])\<close> evaluates the
  default first; a missing key there would raise \<^verbatim>\<open>KeyError\<close>.
\<close>

definition compute_liability :: "string \<Rightarrow> rat list \<Rightarrow> rat \<Rightarrow> py_error + tax_summary" where
  "compute_liability filing_status incomes withheld =
     (let filing_status = replace (CHR '' '') (CHR ''_'') (lower filing_status);
          total_income = sum_list incomes
      in case map_of STANDARD_DEDUCTION ''single'' of
           None \<Rightarrow> Inl KeyError
         | Some single_deduction \<Rightarrow>
             (let deduction =
                    (case map_of STANDARD_DEDUCTION filing_status of
                       Some d \<Rightarrow> d
                     | None \<Rightarrow> single_deduction);
                  taxable_income = max 0 (total_income - deduction)
              in case calculate_tax taxable_income filing_status of
                   Inl e \<Rightarrow> Inl e
                 | Inr tax \<Rightarrow>
                     (let refund = py_round (withheld - tax) 2
                      in Inr \<lparr>Total_Income = py_round total_income 2,
                              Standard_Deduction = deduction,
                              Taxable_Income = py_round taxable_income 2,
                              Federal_Tax_Owed = py_round tax 2,
                              Federal_Tax_Withheld = py_round withheld 2,
                              Refund_or_Balance_Due = refund\<rparr>)))"

section \<open>\<^verbatim>\<open>to_float\<close> of \<^verbatim>\<open>app.py\<close>\<close>

text \<open>
  The values that reach \<^verbatim>\<open>to_float\<close> are those of \<^verbatim>\<open>doc.get(field)\<close> on a document
  decoded by \<^verbatim>\<open>json.loads\<close>: \<^verbatim>\<open>None\<close> (also for a missing field), booleans, integers
  of any size, floats, strings, lists and dictionaries.
\<close>

datatype py_value =
    PNone
  | PBool bool
  | PInt int
  | PFloat rat
  | PStr string
  | PList "py_value list"
  | PDict "(string \<times> py_value) list"

text \<open>
  Python's builtin \<^verbatim>\<open>float(value)\<close>. It raises \<^verbatim>\<open>TypeError\<close> on \<^verbatim>\<open>None\<close>, lists and
  dictionaries, \<^verbatim>\<open>ValueError\<close> on a string that is not a float literal, and
  \<^verbatim>\<open>OverflowError\<close> on an integer that rounds beyond the largest float, that is from
  \<open>2\<^sup>1\<^sup>0\<^sup>2\<^sup>4 - 2\<^sup>9\<^sup>7\<^sup>0\<close> on. The parser of float literals is the parameter
  \<open>float_of_str\<close> (\<open>None\<close> where the builtin raises \<^verbatim>\<open>ValueError\<close>).
\<close>

fun py_float :: "(string \<Rightarrow> rat option) \<Rightarrow> py_value \<Rightarrow> py_error + rat" where
  "py_float float_of_str PNone = Inl TypeError"
| "py_float float_of_str (PBool b) = Inr (if b then 1 else 0)"
| "py_float float_of_str (PInt n) =
     (if \<bar>n\<bar> \<ge> 2 ^ 1024 - 2 ^ 970 then Inl OverflowError else Inr (of_int n))"
| "py_float float_of_str (PFloat x) = Inr x"
| "py_float float_of_str (PStr s) =
     (case float_of_str s of None \<Rightarrow> Inl ValueError | Some x \<Rightarrow> Inr x)"
| "py_float float_of_str (PList xs) = Inl TypeError"
| "py_float float_of_str (PDict kvs) = Inl TypeError"

text \<open>The \<^verbatim>\<open>except (TypeError, ValueError)\<close> clause lets every other exception through.\<close>

definition to_float :: "(string \<Rightarrow> rat option) \<Rightarrow> py_value \<Rightarrow> py_error + rat" where
  "to_float float_of_str v =
     (if v \<noteq> PNone then
        (case py_float float_of_str v of
           Inr x \<Rightarrow> Inr x
         | Inl TypeError \<Rightarrow> Inr 0
         | Inl ValueError \<Rightarrow> Inr 0
         | Inl e \<Rightarrow> Inl e)
      else Inr 0)"

section \<open>Notions of the specification\<close>

text \<open>
  The progressive marginal tax in the words of the specification: every band strictly
  below the income contributes \<open>(upperBound - lowerBound) * rate\<close>, and the first band
  whose upper bound is at least the income contributes \<open>(income - lowerBound) * rate\<close>.
\<close>

fun band_below :: "band \<Rightarrow> rat \<Rightarrow> bool" where
  "band_below (low, Finite h, rate) income = (h < income)"
| "band_below (low, Infinity, rate) income = False"

fun full_band :: "band \<Rightarrow> rat" where
  "full_band (low, Finite h, rate) = (h - low) * rate"
| "full_band (low, Infinity, rate) = 0"

definition progressive_tax :: "rat \<Rightarrow> band list \<Rightarrow> rat" where
  "progressive_tax income bands =
     sum_list (map full_band (filter (\<lambda>b. band_below b income) bands))
     + (case find (\<lambda>b. \<not> band_below b income) bands of
          None \<Rightarrow> 0
        | Some (low, high, rate) \<Rightarrow> (income - low) * rate)"

text \<open>The invariants of a bracket table.\<close>

fun bound_le :: "bound \<Rightarrow> bound \<Rightarrow> bool" where
  "bound_le (Finite a) (Finite b) = (a \<le> b)"
| "bound_le h Infinity = True"
| "bound_le Infinity (Finite b) = False"

fun contiguous :: "band list \<Rightarrow> bool" where
  "contiguous ((l1, h1, r1) # (l2, h2, r2) # rest) =
     (h1 = Finite l2 \<and> contiguous ((l2, h2, r2) # rest))"
| "contiguous [b] = True"
| "contiguous [] = True"

fun band_ordered :: "band \<Rightarrow> bool" where
  "band_ordered (low, Finite h, rate) = (low < h)"
| "band_ordered (low, Infinity, rate) = True"

fun rate_ok :: "band \<Rightarrow> bool" where
  "rate_ok (low, high, rate) = (0 \<le> rate \<and> rate < 1)"

definition bands_invariant :: "band list \<Rightarrow> bool" where
  "bands_invariant bs =
     (bs \<noteq> [] \<and> fst (hd bs) = 0 \<and> fst (snd (last bs)) = Infinity
      \<and> contiguous bs \<and> list_all band_ordered bs \<and> list_all rate_ok bs)"

text \<open>
  The summary that a given deduction and bracket table determine: what it means that
  ``that status's deduction and brackets are used''.
\<close>

definition liability_with :: "rat \<Rightarrow> band list \<Rightarrow> rat list \<Rightarrow> rat \<Rightarrow> tax_summary" where
  "liability_with deduction brackets incomes withheld =
     (let total_income = sum_list incomes;
          taxable_income = max 0 (total_income - deduction);
          tax = py_round (bracket_loop taxable_income brackets 0) 2
      in \<lparr>Total_Income = py_round total_income 2,
          Standard_Deduction = deduction,
          Taxable_Income = py_round taxable_income 2,
          Federal_Tax_Owed = tax,
          Federal_Tax_Withheld = py_round withheld 2,
          Refund_or_Balance_Due = py_round (withheld - tax) 2\<rparr>)"

text \<open>An amount in whole cents is one that rounding to 2 places leaves unchanged.\<close>

definition whole_cents :: "rat \<Rightarrow> bool" where
  "whole_cents x = (py_round x 2 = x)"

text \<open>
  Matching a status string against a known status without regard to case, whitespace
  and separators: both are lower-cased and cut into words at spaces and underscores,
  and the word lists are compared.
\<close>

fun status_words :: "string \<Rightarrow> string \<Rightarrow> string list" where
  "status_words w [] = (if w = [] then [] else [w])"
| "status_words w (c # cs) =
     (if c = CHR '' '' \<or> c = CHR ''_''
      then (if w = [] then status_words [] cs else w # status_words [] cs)
      else status_words (w @ [c]) cs)"

definition status_matches :: "string \<Rightarrow> string \<Rightarrow> bool" where
  "status_matches s known = (status_words [] (lower s) = status_words [] (lower known))"

section \<open>Rounding\<close>

lemma floor_rat_divide_numeral [simp]:
  "\<lfloor>numeral a / numeral b :: rat\<rfloor> = numeral a div numeral b"
  by (metis floor_divide_of_int_eq of_int_numeral)

lemma floor_rat_minus_divide_numeral [simp]:
  "\<lfloor>- (numeral a / numeral b) :: rat\<rfloor> = - numeral a div numeral b"
  by (metis divide_minus_left floor_divide_of_int_eq of_int_neg_numeral of_int_numeral)

lemma floor_rat_one_divide_numeral [simp]:
  "\<lfloor>1 / numeral b :: rat\<rfloor> = 1 div numeral b"
  by (metis floor_divide_of_int_eq of_int_1 of_int_numeral)

lemma floor_rat_minus_one_divide_numeral [simp]:
  "\<lfloor>- (1 / numeral b) :: rat\<rfloor> = - 1 div numeral b"
  by (metis divide_minus_left floor_divide_of_int_eq of_int_1 of_int_minus of_int_numeral)

lemma round_half_even_cases:
  "round_half_even x = \<lfloor>x\<rfloor> \<or> round_half_even x = \<lfloor>x\<rfloor> + 1"
  by (simp add: round_half_even_def Let_def)

lemma round_half_even_of_int [simp]: "round_half_even (of_int k) = k"
  by (simp add: round_half_even_def)

lemma round_half_even_0 [simp]: "round_half_even 0 = 0"
  using round_half_even_of_int [of 0] by simp

lemma round_half_even_numeral [simp]: "round_half_even (numeral v) = numeral v"
  using round_half_even_of_int [of "numeral v"] by simp

lemma round_half_even_neg_numeral [simp]: "round_half_even (- numeral v) = - numeral v"
  using round_half_even_of_int [of "- numeral v"] by simp

lemma round_half_even_lower: "x - 1 / 2 \<le> of_int (round_half_even x)"
  unfolding round_half_even_def Let_def by (auto; linarith)

lemma round_half_even_upper: "of_int (round_half_even x) \<le> x + 1 / 2"
  unfolding round_half_even_def Let_def by (auto; linarith)

lemma round_half_even_mono:
  assumes "x \<le> y"
  shows "round_half_even x \<le> round_half_even y"
proof (cases "\<lfloor>x\<rfloor> = \<lfloor>y\<rfloor>")
  case True
  with assms show ?thesis
    unfolding round_half_even_def Let_def by (auto; linarith)
next
  case False
  with assms have "\<lfloor>x\<rfloor> + 1 \<le> \<lfloor>y\<rfloor>"
    using floor_mono [of x y] by linarith
  moreover have "round_half_even x \<le> \<lfloor>x\<rfloor> + 1"
    using round_half_even_cases [of x] by linarith
  moreover have "\<lfloor>y\<rfloor> \<le> round_half_even y"
    using round_half_even_cases [of y] by linarith
  ultimately show ?thesis by linarith
qed


lemma py_round_mono: "x \<le> y \<Longrightarrow> py_round x n \<le> py_round y n"
  by (simp add: py_round_def divide_right_mono round_half_even_mono)

lemma py_round_0 [simp]: "py_round 0 n = 0"
  by (simp add: py_round_def round_half_even_def)

lemma py_round_idem [simp]: "py_round (py_round x n) n = py_round x n"
  by (simp add: py_round_def)

lemma py_round_nonneg: "0 \<le> x \<Longrightarrow> 0 \<le> py_round x n"
  using py_round_mono [of 0 x n] by simp


lemma py_round_error: "\<bar>py_round x 2 - x\<bar> \<le> 1 / 200"
proof -
  have "x * 100 - 1 / 2 \<le> of_int (round_half_even (x * 100))"
    and "of_int (round_half_even (x * 100)) \<le> x * 100 + 1 / 2"
    by (rule round_half_even_lower, rule round_half_even_upper)
  then have "py_round x 2 - x \<le> 1 / 200" and "- (1 / 200) \<le> py_round x 2 - x"
    by (simp_all add: py_round_def field_simps)
  then show ?thesis by linarith
qed

text \<open>The difference of two rounded amounts is a rounded amount.\<close>

lemma py_round_diff_rounded:
  "py_round (py_round a n - py_round b n) n = py_round a n - py_round b n"
proof -
  have "(py_round a n - py_round b n) * 10 ^ n
          = of_int (round_half_even (a * 10 ^ n) - round_half_even (b * 10 ^ n))"
    by (simp add: py_round_def field_simps)
  then have "py_round (py_round a n - py_round b n) n
          = of_int (round_half_even (a * 10 ^ n) - round_half_even (b * 10 ^ n)) / 10 ^ n"
    unfolding py_round_def [of "py_round a n - py_round b n"]
    by (simp only: round_half_even_of_int)
  then show ?thesis
    by (simp add: py_round_def diff_divide_distrib)
qed


lemma whole_cents_0 [simp]: "whole_cents 0"
  by (simp add: whole_cents_def)





section \<open>The bracket loop on a well-formed table\<close>

lemma tables_invariant:
  "(st, bs) \<in> set TAX_BRACKETS_2024 \<Longrightarrow> bands_invariant bs"
  by (auto simp: TAX_BRACKETS_2024_def bands_invariant_def)

lemma tables_ascending:
  "(st, bs) \<in> set TAX_BRACKETS_2024 \<Longrightarrow>
     sorted_wrt (\<lambda>b1 b2. bound_le (fst (snd b1)) (fst (snd b2))) bs"
  by (auto simp: TAX_BRACKETS_2024_def)



lemma contiguous_tail: "contiguous (b # bs) \<Longrightarrow> contiguous bs"
  by (cases b; cases bs) auto

lemma contiguous_nth:
  "contiguous bs \<Longrightarrow> Suc i < length bs \<Longrightarrow> fst (snd (bs ! i)) = Finite (fst (bs ! Suc i))"
proof (induction bs arbitrary: i rule: contiguous.induct)
  case (1 l1 h1 r1 l2 h2 r2 rest)
  then show ?case by (cases i) auto
qed simp_all



lemma bracket_loop_ge:
  assumes "contiguous bs" "list_all band_ordered bs" "list_all rate_ok bs"
    and "bs \<noteq> [] \<Longrightarrow> fst (hd bs) \<le> x"
  shows "acc \<le> bracket_loop x bs acc"
  using assms
proof (induction bs arbitrary: acc)
  case Nil
  show ?case by simp
next
  case (Cons b bs)
  obtain low high rate where b: "b = (low, high, rate)" by (cases b)
  from Cons.prems b have low: "low \<le> x" and rate: "0 \<le> rate" by simp_all
  show ?case
  proof (cases high)
    case Infinity
    with low rate show ?thesis by (simp add: b)
  next
    case (Finite h)
    show ?thesis
    proof (cases "h < x")
      case False
      with low rate Finite show ?thesis by (simp add: b)
    next
      case True
      from Cons.prems b Finite have lh: "low < h" by simp
      have c: "contiguous bs" using Cons.prems(1) by (rule contiguous_tail)
      have "bs \<noteq> [] \<Longrightarrow> fst (hd bs) \<le> x"
        using Cons.prems(1) True Finite by (cases bs) (auto simp: b)
      with Cons.IH [of "acc + (h - low) * rate"] c Cons.prems
      have "acc + (h - low) * rate \<le> bracket_loop x bs (acc + (h - low) * rate)" by simp
      moreover have "0 \<le> (h - low) * rate" using lh rate by simp
      ultimately show ?thesis using True Finite by (simp add: b)
    qed
  qed
qed

lemma bracket_loop_mono:
  assumes "contiguous bs" "list_all band_ordered bs" "list_all rate_ok bs" "a \<le> b"
  shows "bracket_loop a bs acc \<le> bracket_loop b bs acc"
  using assms
proof (induction bs arbitrary: acc)
  case Nil
  show ?case by simp
next
  case (Cons bd bs)
  obtain low high rate where bd: "bd = (low, high, rate)" by (cases bd)
  from Cons.prems bd have rate: "0 \<le> rate" by simp
  have c: "contiguous bs" using Cons.prems(1) by (rule contiguous_tail)
  show ?case
  proof (cases high)
    case Infinity
    with rate Cons.prems(4) show ?thesis by (simp add: bd mult_right_mono)
  next
    case (Finite h)
    from Cons.prems bd Finite have lh: "low < h" by simp
    consider "h < a" | "\<not> h < a" "\<not> h < b" | "\<not> h < a" "h < b" by blast
    then show ?thesis
    proof cases
      case 1
      with Cons.prems(4) have "h < b" by simp
      with 1 Finite Cons.IH [of "acc + (h - low) * rate"] c Cons.prems show ?thesis
        by (simp add: bd)
    next
      case 2
      with Finite rate Cons.prems(4) show ?thesis by (simp add: bd mult_right_mono)
    next
      case 3
      have "bs \<noteq> [] \<Longrightarrow> fst (hd bs) \<le> b"
        using Cons.prems(1) 3 Finite by (cases bs) (auto simp: bd)
      with c Cons.prems
      have "acc + (h - low) * rate \<le> bracket_loop b bs (acc + (h - low) * rate)"
        by (intro bracket_loop_ge) simp_all
      moreover have "(a - low) * rate \<le> (h - low) * rate"
        using 3 rate by (simp add: mult_right_mono)
      ultimately show ?thesis using 3 Finite by (simp add: bd)
    qed
  qed
qed

text \<open>On a table whose upper bounds ascend, the loop computes the progressive tax.\<close>

lemma bracket_loop_progressive:
  assumes "sorted_wrt (\<lambda>b1 b2. bound_le (fst (snd b1)) (fst (snd b2))) bs"
  shows "bracket_loop income bs acc = acc + progressive_tax income bs"
  using assms
proof (induction bs arbitrary: acc)
  case Nil
  show ?case by (simp add: progressive_tax_def)
next
  case (Cons b bs)
  obtain low high rate where b: "b = (low, high, rate)" by (cases b)
  show ?case
  proof (cases "band_below b income")
    case True
    then obtain h where h: "high = Finite h" "h < income"
      by (cases high) (auto simp: b)
    from Cons.prems have "sorted_wrt (\<lambda>b1 b2. bound_le (fst (snd b1)) (fst (snd b2))) bs"
      by simp
    from Cons.IH [OF this, of "acc + (h - low) * rate"] True h show ?thesis
      by (simp add: b progressive_tax_def)
  next
    case False
    have "\<not> band_below b' income" if "b' \<in> set bs" for b'
    proof -
      from Cons.prems that have le: "bound_le high (fst (snd b'))" by (auto simp: b)
      obtain l' h' r' where b': "b' = (l', h', r')" by (cases b')
      from False le show ?thesis
        by (cases high; cases h') (auto simp: b b')
    qed
    then have "filter (\<lambda>b. band_below b income) bs = []"
      by (simp add: filter_empty_conv)
    with False show ?thesis
      by (cases high) (auto simp: b progressive_tax_def)
  qed
qed

text \<open>
  \<^verbatim>\<open>calculate_tax\<close> never raises: the table it reads is the one of the status, or the one
  of \<^verbatim>\<open>"single"\<close> for a string that is not a key.
\<close>

lemma calculate_tax_table:
  "\<exists>bs. (if map_of TAX_BRACKETS_2024 st = None then ''single'' else st, bs)
            \<in> set TAX_BRACKETS_2024
     \<and> (\<forall>income. calculate_tax income st = Inr (py_round (bracket_loop income bs 0) 2))"
proof (cases "map_of TAX_BRACKETS_2024 st")
  case None
  have "\<exists>bs. map_of TAX_BRACKETS_2024 ''single'' = Some bs"
    by (simp add: TAX_BRACKETS_2024_def)
  then obtain bs where bs: "map_of TAX_BRACKETS_2024 ''single'' = Some bs" ..
  with None show ?thesis
    by (auto simp: calculate_tax_def dest: map_of_SomeD)
next
  case (Some bs)
  then show ?thesis
    by (auto simp: calculate_tax_def dest: map_of_SomeD)
qed


section \<open>\<^verbatim>\<open>compute_liability\<close> never raises\<close>

lemma standard_deduction_single: "map_of STANDARD_DEDUCTION ''single'' = Some 14600"
  by (simp add: STANDARD_DEDUCTION_def)

lemma compute_liability_with:
  "\<exists>bs. (if map_of TAX_BRACKETS_2024 (replace (CHR '' '') (CHR ''_'') (lower st)) = None
          then ''single'' else replace (CHR '' '') (CHR ''_'') (lower st), bs)
            \<in> set TAX_BRACKETS_2024
     \<and> (\<forall>incomes withheld. compute_liability st incomes withheld =
          Inr (liability_with
                (case map_of STANDARD_DEDUCTION (replace (CHR '' '') (CHR ''_'') (lower st)) of
                   Some d \<Rightarrow> d | None \<Rightarrow> 14600)
                bs incomes withheld))"
proof -
  from calculate_tax_table [of "replace (CHR '' '') (CHR ''_'') (lower st)"]
  obtain bs where
    tbl: "(if map_of TAX_BRACKETS_2024 (replace (CHR '' '') (CHR ''_'') (lower st)) = None
          then ''single'' else replace (CHR '' '') (CHR ''_'') (lower st), bs)
            \<in> set TAX_BRACKETS_2024"
    and eq: "\<And>income. calculate_tax income (replace (CHR '' '') (CHR ''_'') (lower st))
               = Inr (py_round (bracket_loop income bs 0) 2)"
    by blast
  have "compute_liability st incomes withheld =
          Inr (liability_with
                (case map_of STANDARD_DEDUCTION (replace (CHR '' '') (CHR ''_'') (lower st)) of
                   Some d \<Rightarrow> d | None \<Rightarrow> 14600)
                bs incomes withheld)" for incomes withheld
    by (simp add: compute_liability_def liability_with_def standard_deduction_single eq Let_def)
  with tbl show ?thesis by blast
qed

lemma tables_same_keys:
  "map_of STANDARD_DEDUCTION k = None \<longleftrightarrow> map_of TAX_BRACKETS_2024 k = None"
  by (simp add: map_of_eq_None_iff STANDARD_DEDUCTION_def TAX_BRACKETS_2024_def)

lemma normalize_single: "replace (CHR '' '') (CHR ''_'') (lower ''single'') = ''single''"
  by (simp add: replace_def lower_def lower_char_def ascii_uppercase_def ascii_lowercase_def)

section \<open>\<^verbatim>\<open>to_float\<close> raises on large integers only\<close>

lemma to_float_raises:
  "to_float float_of_str v = Inl e \<longleftrightarrow>
     (\<exists>n. v = PInt n \<and> 2 ^ 1024 - 2 ^ 970 \<le> \<bar>n\<bar> \<and> e = OverflowError)"
  by (cases v) (auto simp: to_float_def split: option.splits)

lemma to_float_examples:
  "to_float float_of_str PNone = Inr 0"
  "to_float float_of_str (PInt 52300) = Inr 52300"
  "to_float float_of_str (PFloat x) = Inr x"
  "float_of_str s = None \<Longrightarrow> to_float float_of_str (PStr s) = Inr 0"
  "float_of_str s = Some y \<Longrightarrow> to_float float_of_str (PStr s) = Inr y"
  "to_float float_of_str (PList xs) = Inr 0"
  by (simp_all add: to_float_def)

lemmas evaluate =
  compute_liability_def calculate_tax_def STANDARD_DEDUCTION_def TAX_BRACKETS_2024_def
  lower_def lower_char_def ascii_uppercase_def ascii_lowercase_def replace_def
  py_round_def round_half_even_def Let_def

section \<open>The claims\<close>

subsection \<open>C2: the refund from the stored fields\<close>

text \<open>
  C2, as amended. Rebuilding the refund from the stored fields,
  \<open>round(stored withheld - stored owed, 2)\<close>, differs from the stored Refund or Balance
  Due by at most one cent, and agrees with it whenever the withholding already has two
  decimals.
\<close>

theorem refund_reconstruction:
  "\<exists>s. compute_liability st incomes withheld = Inr s
     \<and> \<bar>py_round (Federal_Tax_Withheld s - Federal_Tax_Owed s) 2 - Refund_or_Balance_Due s\<bar>
          \<le> 1 / 100
     \<and> (py_round withheld 2 = withheld \<longrightarrow>
          py_round (Federal_Tax_Withheld s - Federal_Tax_Owed s) 2 = Refund_or_Balance_Due s)"
proof -
  from compute_liability_with [of st] obtain d bs where
    eq: "compute_liability st incomes withheld = Inr (liability_with d bs incomes withheld)"
    by blast
  define tax where "tax = bracket_loop (max 0 (sum_list incomes - d)) bs 0"
  have recon: "py_round (py_round withheld 2 - py_round tax 2) 2
                 = py_round withheld 2 - py_round tax 2"
    by (rule py_round_diff_rounded)
  have "\<bar>py_round withheld 2 - withheld\<bar> \<le> 1 / 200"
    and "\<bar>py_round (withheld - py_round tax 2) 2 - (withheld - py_round tax 2)\<bar> \<le> 1 / 200"
    by (rule py_round_error)+
  then have "\<bar>py_round withheld 2 - py_round tax 2 - py_round (withheld - py_round tax 2) 2\<bar>
               \<le> 1 / 100"
    by linarith
  with recon eq show ?thesis
    by (auto simp: liability_with_def Let_def tax_def)
qed

text \<open>
  A withholding of 8000 has two decimals, and both derivations give 2704.50.
\<close>

theorem refund_reconstruction_witness:
  "py_round 8000 2 = 8000
   \<and> compute_liability ''single'' [60000] 8000 =
     Inr \<lparr>Total_Income = 60000, Standard_Deduction = 14600, Taxable_Income = 45400,
          Federal_Tax_Owed = 529550 / 100, Federal_Tax_Withheld = 8000,
          Refund_or_Balance_Due = 270450 / 100\<rparr>
   \<and> py_round (8000 - 529550 / 100) 2 = 270450 / 100"
proof -
  have c: "compute_liability ''single'' [60000] 8000 =
     Inr \<lparr>Total_Income = 60000, Standard_Deduction = 14600, Taxable_Income = 45400,
          Federal_Tax_Owed = 529550 / 100, Federal_Tax_Withheld = 8000,
          Refund_or_Balance_Due = 270450 / 100\<rparr>"
    by (simp add: evaluate)
  have h: "py_round 8000 2 = 8000" by (simp add: py_round_def)
  from refund_reconstruction [of "''single''" "[60000]" 8000] c h show ?thesis
    by auto
qed

text \<open>
  The claim as stated fails for a withholding of 0.125 against a tax of 0.01: the stored
  refund is \<open>round(0.115, 2) = 0.12\<close>, and the stored fields give \<open>0.12 - 0.01 = 0.11\<close>.
\<close>

theorem refund_reconstruction_counterexample:
  "compute_liability ''single'' [14600 + 1 / 8] (1 / 8) =
     Inr \<lparr>Total_Income = 1460012 / 100, Standard_Deduction = 14600, Taxable_Income = 12 / 100,
          Federal_Tax_Owed = 1 / 100, Federal_Tax_Withheld = 12 / 100,
          Refund_or_Balance_Due = 12 / 100\<rparr>
   \<and> py_round (12 / 100 - 1 / 100) 2 = 11 / 100"
  by (simp add: evaluate)

subsection \<open>C3: the scenario of the specification\<close>

text \<open>
  C3. \<^verbatim>\<open>compute_liability("single", [60000], 8000)\<close> returns Total Income 60000.00,
  Standard Deduction 14600, Taxable Income 45400.00, Federal Tax Owed 5295.50, Federal
  Tax Withheld 8000.00 and Refund or Balance Due 2704.50.
\<close>

theorem compute_liability_single_60000:
  "compute_liability ''single'' [60000] 8000 =
     Inr \<lparr>Total_Income = 60000, Standard_Deduction = 14600, Taxable_Income = 45400,
          Federal_Tax_Owed = 529550 / 100, Federal_Tax_Withheld = 8000,
          Refund_or_Balance_Due = 270450 / 100\<rparr>"
  by (simp add: evaluate)

subsection \<open>C4: the normalisation of the status\<close>

text \<open>
  C4, as amended. \<^verbatim>\<open>compute_liability\<close> lower-cases the status and replaces every space
  by an underscore, and nothing more. When the result is one of the four keys, the
  deduction and the brackets of that key are used; for every other string the output is
  the output for \<^verbatim>\<open>"single"\<close> with the same incomes and withholding.
\<close>

theorem status_normalization:
  assumes "n = replace (CHR '' '') (CHR ''_'') (lower st)"
  shows "(\<forall>d bs. map_of STANDARD_DEDUCTION n = Some d \<and> map_of TAX_BRACKETS_2024 n = Some bs \<longrightarrow>
            compute_liability st incomes withheld = Inr (liability_with d bs incomes withheld))
       \<and> (map_of TAX_BRACKETS_2024 n = None \<longrightarrow>
            compute_liability st incomes withheld = compute_liability ''single'' incomes withheld)"
proof (intro conjI allI impI)
  fix d bs
  assume "map_of STANDARD_DEDUCTION n = Some d \<and> map_of TAX_BRACKETS_2024 n = Some bs"
  then have d: "map_of STANDARD_DEDUCTION (replace (CHR '' '') (CHR ''_'') (lower st)) = Some d"
    and bs: "map_of TAX_BRACKETS_2024 (replace (CHR '' '') (CHR ''_'') (lower st)) = Some bs"
    by (simp_all add: assms)
  show "compute_liability st incomes withheld = Inr (liability_with d bs incomes withheld)"
    by (simp add: compute_liability_def calculate_tax_def liability_with_def
        standard_deduction_single d bs Let_def)
next
  assume "map_of TAX_BRACKETS_2024 n = None"
  then have t: "map_of TAX_BRACKETS_2024 (replace (CHR '' '') (CHR ''_'') (lower st)) = None"
    by (simp add: assms)
  then have d: "map_of STANDARD_DEDUCTION (replace (CHR '' '') (CHR ''_'') (lower st)) = None"
    by (simp add: tables_same_keys)
  have "\<exists>bs. map_of TAX_BRACKETS_2024 ''single'' = Some bs"
    by (simp add: TAX_BRACKETS_2024_def)
  then obtain bs where s: "map_of TAX_BRACKETS_2024 ''single'' = Some bs" ..
  show "compute_liability st incomes withheld = compute_liability ''single'' incomes withheld"
    by (simp add: compute_liability_def calculate_tax_def normalize_single
        standard_deduction_single d t s Let_def)
qed

text \<open>
  \<^verbatim>\<open>"Head of Household"\<close> normalises to the key \<^verbatim>\<open>"head_of_household"\<close>, and \<^verbatim>\<open>"foo"\<close> to
  no key.
\<close>

theorem status_normalization_witness:
  "''head_of_household'' = replace (CHR '' '') (CHR ''_'') (lower ''Head of Household'')
   \<and> map_of STANDARD_DEDUCTION ''head_of_household'' = Some 21900
   \<and> (\<exists>bs. map_of TAX_BRACKETS_2024 ''head_of_household'' = Some bs
        \<and> compute_liability ''Head of Household'' [60000] 8000
            = Inr (liability_with 21900 bs [60000] 8000))
   \<and> ''foo'' = replace (CHR '' '') (CHR ''_'') (lower ''foo'')
   \<and> map_of TAX_BRACKETS_2024 ''foo'' = None
   \<and> compute_liability ''foo'' [60000] 8000 = compute_liability ''single'' [60000] 8000"
proof -
  have n1: "''head_of_household'' = replace (CHR '' '') (CHR ''_'') (lower ''Head of Household'')"
    and n2: "''foo'' = replace (CHR '' '') (CHR ''_'') (lower ''foo'')"
    by (simp_all add: replace_def lower_def lower_char_def ascii_uppercase_def ascii_lowercase_def)
  have d: "map_of STANDARD_DEDUCTION ''head_of_household'' = Some 21900"
    by (simp add: STANDARD_DEDUCTION_def)
  have "\<exists>bs. map_of TAX_BRACKETS_2024 ''head_of_household'' = Some bs"
    by (simp add: TAX_BRACKETS_2024_def)
  then obtain bs where bs: "map_of TAX_BRACKETS_2024 ''head_of_household'' = Some bs" ..
  have f: "map_of TAX_BRACKETS_2024 ''foo'' = None"
    by (simp add: TAX_BRACKETS_2024_def)
  from status_normalization [OF n1, of "[60000]" 8000] d bs
  have 1: "compute_liability ''Head of Household'' [60000] 8000
            = Inr (liability_with 21900 bs [60000] 8000)"
    by blast
  from status_normalization [OF n2, of "[60000]" 8000] f
  have 2: "compute_liability ''foo'' [60000] 8000 = compute_liability ''single'' [60000] 8000"
    by blast
  from n1 n2 d bs f 1 2 show ?thesis by blast
qed

text \<open>
  The claim as stated fails for \<^verbatim>\<open>" head of household"\<close>, with a leading space. Without
  regard to case, whitespace and separators it matches \<^verbatim>\<open>"head_of_household"\<close>, but the
  code normalises it to \<^verbatim>\<open>"_head_of_household"\<close>, which is no key, and uses the deduction
  and brackets of \<^verbatim>\<open>"single"\<close>.
\<close>

theorem status_normalization_counterexample:
  "status_matches '' head of household'' ''head_of_household''
   \<and> map_of STANDARD_DEDUCTION ''head_of_household'' = Some 21900
   \<and> compute_liability '' head of household'' [60000] 8000 =
       Inr \<lparr>Total_Income = 60000, Standard_Deduction = 14600, Taxable_Income = 45400,
            Federal_Tax_Owed = 529550 / 100, Federal_Tax_Withheld = 8000,
            Refund_or_Balance_Due = 270450 / 100\<rparr>
   \<and> compute_liability ''head_of_household'' [60000] 8000 =
       Inr \<lparr>Total_Income = 60000, Standard_Deduction = 21900, Taxable_Income = 38100,
            Federal_Tax_Owed = 4258, Federal_Tax_Withheld = 8000,
            Refund_or_Balance_Due = 3742\<rparr>"
  by (simp add: status_matches_def evaluate)

subsection \<open>C5: monotonicity\<close>

text \<open>
  C5. For every filing status, \<^verbatim>\<open>calculate_tax\<close> is monotone in the income: for
  non-negative incomes \<open>a \<le> b\<close> both calls return, and the tax at \<open>a\<close> is at most the
  tax at \<open>b\<close>.
\<close>

theorem calculate_tax_monotone:
  assumes "0 \<le> a" and "a \<le> b"
  shows "\<exists>x y. calculate_tax a st = Inr x \<and> calculate_tax b st = Inr y \<and> x \<le> y"
proof -
  from calculate_tax_table [of st] obtain key bs where
    tbl: "(key, bs) \<in> set TAX_BRACKETS_2024"
    and eq: "\<And>income. calculate_tax income st = Inr (py_round (bracket_loop income bs 0) 2)"
    by blast
  from tbl have "bands_invariant bs" by (rule tables_invariant)
  then have "bracket_loop a bs 0 \<le> bracket_loop b bs 0"
    using assms(2) by (intro bracket_loop_mono) (simp_all add: bands_invariant_def)
  then have "py_round (bracket_loop a bs 0) 2 \<le> py_round (bracket_loop b bs 0) 2"
    by (rule py_round_mono)
  with eq show ?thesis by simp
qed

text \<open>
  The incomes 11000 and 45400 under \<^verbatim>\<open>"single"\<close>.
\<close>

theorem calculate_tax_monotone_witness:
  "(0::rat) \<le> 11000 \<and> (11000::rat) \<le> 45400
   \<and> calculate_tax 11000 ''single'' = Inr 1100
   \<and> calculate_tax 45400 ''single'' = Inr (529550 / 100)
   \<and> (\<exists>x y. calculate_tax 11000 ''single'' = Inr x \<and> calculate_tax 45400 ''single'' = Inr y \<and> x \<le> y)"
proof -
  have h1: "(0::rat) \<le> 11000" and h2: "(11000::rat) \<le> 45400" by simp_all
  have "calculate_tax 11000 ''single'' = Inr 1100"
    and "calculate_tax 45400 ''single'' = Inr (529550 / 100)"
    by (simp_all add: evaluate)
  with calculate_tax_monotone [OF h1 h2, of "''single''"] h1 h2 show ?thesis by blast
qed

subsection \<open>C6: the bracket tables\<close>

text \<open>
  C6. The table has the four filing statuses as keys, and for each of them the bands are
  not empty, the first lower bound is 0, the last upper bound is unbounded, the upper
  bound of every band is the lower bound of the next, the lower bounds ascend strictly,
  every band has its lower bound below its upper bound, and every rate lies in \<open>[0, 1)\<close>.
\<close>

theorem bracket_tables_invariant:
  "map fst TAX_BRACKETS_2024 =
     [''single'', ''married_filing_jointly'', ''married_filing_separately'', ''head_of_household'']
   \<and> (\<forall>(st, bs) \<in> set TAX_BRACKETS_2024.
        bs \<noteq> [] \<and> fst (hd bs) = 0 \<and> fst (snd (last bs)) = Infinity
        \<and> (\<forall>i. Suc i < length bs \<longrightarrow> fst (snd (bs ! i)) = Finite (fst (bs ! Suc i)))
        \<and> sorted_wrt (<) (map fst bs)
        \<and> (\<forall>b \<in> set bs. band_ordered b \<and> rate_ok b))"
proof (intro conjI)
  show "map fst TAX_BRACKETS_2024 =
     [''single'', ''married_filing_jointly'', ''married_filing_separately'', ''head_of_household'']"
    by (simp add: TAX_BRACKETS_2024_def)
  show "\<forall>(st, bs) \<in> set TAX_BRACKETS_2024.
        bs \<noteq> [] \<and> fst (hd bs) = 0 \<and> fst (snd (last bs)) = Infinity
        \<and> (\<forall>i. Suc i < length bs \<longrightarrow> fst (snd (bs ! i)) = Finite (fst (bs ! Suc i)))
        \<and> sorted_wrt (<) (map fst bs)
        \<and> (\<forall>b \<in> set bs. band_ordered b \<and> rate_ok b)"
  proof (clarify, intro conjI allI impI ballI)
    fix st bs
    assume tbl: "(st, bs) \<in> set TAX_BRACKETS_2024"
    then have inv: "bands_invariant bs" by (rule tables_invariant)
    from inv show "bs \<noteq> []" "fst (hd bs) = 0" "fst (snd (last bs)) = Infinity"
      by (simp_all add: bands_invariant_def)
    from tbl show "sorted_wrt (<) (map fst bs)"
      by (auto simp: TAX_BRACKETS_2024_def)
    show "fst (snd (bs ! i)) = Finite (fst (bs ! Suc i))" if "Suc i < length bs" for i
      using inv that by (intro contiguous_nth) (simp_all add: bands_invariant_def)
    show "band_ordered b" "rate_ok b" if "b \<in> set bs" for b
      using inv that by (simp_all add: bands_invariant_def list_all_iff)
  qed
qed

text \<open>
  The last two bands of \<^verbatim>\<open>"head_of_household"\<close> meet at 578100.
\<close>

theorem bracket_tables_invariant_witness:
  "\<exists>bs. (''head_of_household'', bs) \<in> set TAX_BRACKETS_2024
     \<and> Suc 5 < length bs
     \<and> fst (bs ! Suc 5) = 578100
     \<and> fst (snd (bs ! 5)) = Finite 578100
     \<and> rate_ok (bs ! 5)"
proof -
  have "\<exists>bs. map_of TAX_BRACKETS_2024 ''head_of_household'' = Some bs
          \<and> Suc 5 < length bs \<and> fst (bs ! Suc 5) = 578100"
    by (simp add: TAX_BRACKETS_2024_def)
  then obtain bs where m: "map_of TAX_BRACKETS_2024 ''head_of_household'' = Some bs"
    and len: "Suc 5 < length bs" and low: "fst (bs ! Suc 5) = 578100"
    by blast
  from m have tbl: "(''head_of_household'', bs) \<in> set TAX_BRACKETS_2024"
    by (rule map_of_SomeD)
  with bracket_tables_invariant
  have c: "\<forall>i. Suc i < length bs \<longrightarrow> fst (snd (bs ! i)) = Finite (fst (bs ! Suc i))"
    and r: "\<forall>b \<in> set bs. band_ordered b \<and> rate_ok b"
    by blast+
  from c len low have "fst (snd (bs ! 5)) = Finite 578100" by auto
  moreover from r len have "rate_ok (bs ! 5)" by simp
  ultimately show ?thesis using tbl len low by blast
qed

subsection \<open>C7: the taxable income\<close>

text \<open>
  C7. For every status string, every list of incomes and every withholding,
  \<^verbatim>\<open>compute_liability\<close> returns a summary whose Taxable Income is
  \<open>max(0, total income - standard deduction)\<close> rounded to 2 places, the deduction being
  the one of the normalised status (14600 for a string that is not a key), and is never
  negative.
\<close>

theorem taxable_income_nonnegative:
  "\<exists>s. compute_liability st incomes withheld = Inr s
     \<and> Standard_Deduction s =
         (case map_of STANDARD_DEDUCTION (replace (CHR '' '') (CHR ''_'') (lower st)) of
            Some d \<Rightarrow> d | None \<Rightarrow> 14600)
     \<and> Taxable_Income s = py_round (max 0 (sum_list incomes - Standard_Deduction s)) 2
     \<and> 0 \<le> Taxable_Income s"
proof -
  from compute_liability_with [of st] obtain bs where
    "compute_liability st incomes withheld =
          Inr (liability_with
                (case map_of STANDARD_DEDUCTION (replace (CHR '' '') (CHR ''_'') (lower st)) of
                   Some d \<Rightarrow> d | None \<Rightarrow> 14600)
                bs incomes withheld)"
    by blast
  then show ?thesis
    by (simp add: liability_with_def Let_def py_round_nonneg)
qed

subsection \<open>C8: the field normaliser\<close>

text \<open>
  C8. The field normaliser is claimed never to raise, and to return 0.0 for every value
  that fails numeric coercion. On the integer \<open>10\<^sup>4\<^sup>0\<^sup>0\<close>, which \<^verbatim>\<open>json.loads\<close> yields for
  a field written with 401 digits, \<^verbatim>\<open>float(value)\<close> raises \<^verbatim>\<open>OverflowError\<close>; the
  \<^verbatim>\<open>except (TypeError, ValueError)\<close> clause does not catch it, and \<^verbatim>\<open>to_float\<close> raises.
\<close>

theorem to_float_overflow:
  "to_float float_of_str (PInt (10 ^ 400)) = Inl OverflowError"
  by (simp add: to_float_def)

subsection \<open>C9: continuity at the bracket boundaries\<close>



subsection \<open>C10: negative incomes\<close>




end
